theory Spec2Isabelle
  imports Complex_Main
begin

section \<open>Python values and exceptions\<close>

text \<open>
  The exceptions that the code of \<^verbatim>\<open>load_tester.py\<close> can meet, each with the text that
  \<^verbatim>\<open>str(e)\<close> gives. \<open>AsyncioTimeoutError\<close> is \<^verbatim>\<open>asyncio.TimeoutError\<close>; \<open>ClientError\<close>
  stands for every other exception of the \<^verbatim>\<open>Exception\<close> hierarchy that the HTTP client
  raises (connection refused, reset, wrong content type, invalid JSON, ...) and carries
  its message. Task cancellation and interpreter exit are outside the \<^verbatim>\<open>Exception\<close>
  hierarchy; they are not outcomes of a request and are not modelled.
\<close>

datatype exn =
    AsyncioTimeoutError
  | ClientError string
  | TypeError string
  | KeyError string
  | ZeroDivisionError
  | IndexError
  | ValueError string
  | StatisticsError string

definition quoted :: "string \<Rightarrow> string" where
  "quoted s = CHR 0x27 # s @ [CHR 0x27]"

fun py_str :: "exn \<Rightarrow> string" where
  "py_str AsyncioTimeoutError = []"
| "py_str (ClientError msg) = msg"
| "py_str (TypeError msg) = msg"
| "py_str (KeyError k) = quoted k"
| "py_str ZeroDivisionError = ''division by zero''"
| "py_str IndexError = ''list index out of range''"
| "py_str (ValueError msg) = msg"
| "py_str (StatisticsError msg) = msg"

definition ebind :: "exn + 'a \<Rightarrow> ('a \<Rightarrow> exn + 'b) \<Rightarrow> exn + 'b" where
  "ebind m f = (case m of Inl e \<Rightarrow> Inl e | Inr v \<Rightarrow> f v)"

text \<open>
  What \<^verbatim>\<open>response.json()\<close> returns: a Python value built from \<^verbatim>\<open>None\<close>, booleans, numbers,
  strings, lists and dicts. A dict is given by its key/value pairs, looked up with
  \<open>map_of\<close>. Python floats are idealised as reals throughout.
\<close>

datatype json =
    JNull
  | JBool bool
  | JInt int
  | JFloat real
  | JStr string
  | JArr "json list"
  | JObj "(string \<times> json) list"

fun type_name :: "json \<Rightarrow> string" where
  "type_name JNull = ''NoneType''"
| "type_name (JBool b) = ''bool''"
| "type_name (JInt i) = ''int''"
| "type_name (JFloat x) = ''float''"
| "type_name (JStr s) = ''str''"
| "type_name (JArr xs) = ''list''"
| "type_name (JObj kvs) = ''dict''"

text \<open>\<^verbatim>\<open>p in s\<close> on two strings: \<open>p\<close> occurs in \<open>s\<close> as a contiguous piece.\<close>

fun is_substring :: "string \<Rightarrow> string \<Rightarrow> bool" where
  "is_substring p [] = (p = [])"
| "is_substring p (c # cs) = (take (length p) (c # cs) = p \<or> is_substring p cs)"

text \<open>\<^verbatim>\<open>k in data\<close> for a string \<open>k\<close>: key membership on a dict, element equality on a
  list, substring test on a string, and a \<^verbatim>\<open>TypeError\<close> on everything else.\<close>

fun py_contains :: "string \<Rightarrow> json \<Rightarrow> exn + bool" where
  "py_contains k (JObj kvs) = Inr (map_of kvs k \<noteq> None)"
| "py_contains k (JArr xs) = Inr (JStr k \<in> set xs)"
| "py_contains k (JStr s) = Inr (is_substring k s)"
| "py_contains k v =
     Inl (TypeError (''argument of type '' @ quoted (type_name v) @ '' is not iterable''))"

text \<open>\<^verbatim>\<open>data[k]\<close> for a string \<open>k\<close>.\<close>

fun py_getitem :: "json \<Rightarrow> string \<Rightarrow> exn + json" where
  "py_getitem (JObj kvs) k = (case map_of kvs k of None \<Rightarrow> Inl (KeyError k) | Some v \<Rightarrow> Inr v)"
| "py_getitem (JArr xs) k = Inl (TypeError ''list indices must be integers or slices, not str'')"
| "py_getitem (JStr s) k =
     Inl (TypeError (''string indices must be integers, not '' @ quoted ''str''))"
| "py_getitem v k =
     Inl (TypeError (quoted (type_name v) @ '' object is not subscriptable''))"

text \<open>
  The keys of a Python dict. Lists and dicts are unhashable; \<^verbatim>\<open>True\<close>, \<^verbatim>\<open>1\<close> and \<^verbatim>\<open>1.0\<close> are
  one key, since they are equal and hash alike.
\<close>

datatype pykey = KNone | KNum real | KStr string

fun py_hash_key :: "json \<Rightarrow> exn + pykey" where
  "py_hash_key JNull = Inr KNone"
| "py_hash_key (JBool b) = Inr (KNum (if b then 1 else 0))"
| "py_hash_key (JInt i) = Inr (KNum (of_int i))"
| "py_hash_key (JFloat x) = Inr (KNum x)"
| "py_hash_key (JStr s) = Inr (KStr s)"
| "py_hash_key v = Inl (TypeError (''unhashable type: '' @ quoted (type_name v)))"

text \<open>
  A \<^verbatim>\<open>defaultdict(int)\<close> as its items in insertion order; \<open>bump d k\<close> is \<^verbatim>\<open>d[k] += 1\<close>.
\<close>

fun bump :: "('k \<times> int) list \<Rightarrow> 'k \<Rightarrow> ('k \<times> int) list" where
  "bump [] k = [(k, 1)]"
| "bump ((k', c) # kvs) k = (if k' = k then (k', c + 1) # kvs else (k', c) # bump kvs k)"

definition dict_values :: "('k \<times> int) list \<Rightarrow> int list" where
  "dict_values d = map snd d"


section \<open>The load tester and its shared results\<close>

record results =
  total_requests :: int
  successful_requests :: int
  failed_requests :: int
  response_times :: "real list"
  server_distribution :: "(pykey \<times> int) list"
  status_codes :: "(int \<times> int) list"
  errors :: "string list"

record tester =
  base_url :: string
  num_users :: int
  duration :: real
  results :: results

definition initial_results :: results where
  "initial_results =
     \<lparr>total_requests = 0, successful_requests = 0, failed_requests = 0,
      response_times = [], server_distribution = [], status_codes = [], errors = []\<rparr>"

text \<open>\<^verbatim>\<open>LoadTester.__init__\<close> (lines 10 to 22): the three arguments are stored as given.\<close>

definition LoadTester_init :: "string \<Rightarrow> int \<Rightarrow> real \<Rightarrow> tester" where
  "LoadTester_init url n d =
     \<lparr>base_url = url, num_users = n, duration = d, results = initial_results\<rparr>"

text \<open>
  The list comprehension of \<^verbatim>\<open>run_test\<close> (lines 95 to 98): one \<^verbatim>\<open>user_session\<close> task for
  every \<open>i\<close> of \<^verbatim>\<open>range(self.num_users)\<close>, given by the user ids.
\<close>

definition run_test_tasks :: "tester \<Rightarrow> nat list" where
  "run_test_tasks t = [0 ..< nat (num_users t)]"


section \<open>One request\<close>

text \<open>
  What \<^verbatim>\<open>session.get(url, timeout=10)\<close> and the read of the body yield. The latency of
  a response is the value \<^verbatim>\<open>(time.time() - start_time) * 1000\<close> taken when the response
  arrives, before the body is read.
\<close>

datatype body =
    Parsed json
  | Unparsable string
  | ReadTimeout

datatype outcome =
    TimedOut
  | Failed string
  | Response real int body

text \<open>The body of the \<^verbatim>\<open>try\<close> of \<^verbatim>\<open>make_request\<close> (lines 28 to 43). Updates made before an
  exception is raised stay.\<close>

definition try_body :: "results \<Rightarrow> outcome \<Rightarrow> results \<times> (exn + bool)" where
  "try_body r out =
     (case out of
        TimedOut \<Rightarrow> (r, Inl AsyncioTimeoutError)
      | Failed msg \<Rightarrow> (r, Inl (ClientError msg))
      | Response response_time status b \<Rightarrow>
          (case b of
             ReadTimeout \<Rightarrow> (r, Inl AsyncioTimeoutError)
           | Unparsable msg \<Rightarrow> (r, Inl (ClientError msg))
           | Parsed data \<Rightarrow>
               (let r1 = r\<lparr>total_requests := total_requests r + 1,
                            response_times := response_times r @ [response_time],
                            status_codes := bump (status_codes r) status\<rparr>
                in if status = 200 then
                     (let r2 = r1\<lparr>successful_requests := successful_requests r1 + 1\<rparr>
                      in case py_contains ''server_id'' data of
                           Inl e \<Rightarrow> (r2, Inl e)
                         | Inr False \<Rightarrow> (r2, Inr True)
                         | Inr True \<Rightarrow>
                             (case ebind (py_getitem data ''server_id'') py_hash_key of
                                Inl e \<Rightarrow> (r2, Inl e)
                              | Inr k \<Rightarrow>
                                  (r2\<lparr>server_distribution := bump (server_distribution r2) k\<rparr>,
                                   Inr True)))
                   else (r1\<lparr>failed_requests := failed_requests r1 + 1\<rparr>, Inr True))))"

text \<open>\<^verbatim>\<open>make_request\<close> (lines 24 to 52). \<open>base\<close> is \<^verbatim>\<open>self.base_url\<close>, and \<open>session\<close> gives
  what a GET of a URL yields.\<close>

definition make_request ::
  "string \<Rightarrow> (string \<Rightarrow> outcome) \<Rightarrow> results \<Rightarrow> string \<Rightarrow> results \<times> (exn + bool)" where
  "make_request base session r endpoint =
     (case try_body r (session (base @ endpoint)) of
        (r', Inr v) \<Rightarrow> (r', Inr v)
      | (r', Inl AsyncioTimeoutError) \<Rightarrow>
          (r'\<lparr>failed_requests := failed_requests r' + 1,
              errors := errors r' @ [''Timeout'']\<rparr>, Inr False)
      | (r', Inl e) \<Rightarrow>
          (r'\<lparr>failed_requests := failed_requests r' + 1,
              errors := errors r' @ [py_str e]\<rparr>, Inr False))"

text \<open>
  Between the read of the body and the \<^verbatim>\<open>return\<close> a call of \<^verbatim>\<open>make_request\<close> never
  awaits, so under asyncio its updates of the shared results are not interleaved with
  another call's. The results after a number of completed calls are therefore those of
  the calls made one after another, in the order of their completion. A call is given by
  its endpoint and what its GET yields.
\<close>

fun run_requests :: "string \<Rightarrow> results \<Rightarrow> (string \<times> outcome) list \<Rightarrow> results" where
  "run_requests base r [] = r"
| "run_requests base r ((endpoint, out) # calls) =
     run_requests base (fst (make_request base (\<lambda>u. out) r endpoint)) calls"

text \<open>Kinds of outcome: a response whose body was parsed, a response of any kind (an HTTP
  status was received), and a response with a status other than 200.\<close>

fun parsed_response :: "outcome \<Rightarrow> bool" where
  "parsed_response (Response t s (Parsed d)) = True"
| "parsed_response out = False"

fun received_status :: "outcome \<Rightarrow> bool" where
  "received_status (Response t s b) = True"
| "received_status out = False"

fun non_success_status :: "outcome \<Rightarrow> bool" where
  "non_success_status (Response t s b) = (s \<noteq> 200)"
| "non_success_status out = False"

text \<open>The data for which lines 38 and 39 raise nothing: a dict without the key or with a
  hashable value under it, a list without the string as an element, a string without it
  as a piece.\<close>

fun hashable :: "json \<Rightarrow> bool" where
  "hashable (JArr xs) = False"
| "hashable (JObj kvs) = False"
| "hashable v = True"

fun server_id_recordable :: "json \<Rightarrow> bool" where
  "server_id_recordable (JObj kvs) =
     (case map_of kvs ''server_id'' of None \<Rightarrow> True | Some v \<Rightarrow> hashable v)"
| "server_id_recordable (JArr xs) = (JStr ''server_id'' \<notin> set xs)"
| "server_id_recordable (JStr s) = (\<not> is_substring ''server_id'' s)"
| "server_id_recordable v = False"

fun returns_true :: "outcome \<Rightarrow> bool" where
  "returns_true (Response t s (Parsed d)) = (if s = 200 then server_id_recordable d else True)"
| "returns_true out = False"

definition count_where :: "(outcome \<Rightarrow> bool) \<Rightarrow> (string \<times> outcome) list \<Rightarrow> int" where
  "count_where P calls = int (length (filter (\<lambda>c. P (snd c)) calls))"


section \<open>One virtual user\<close>

text \<open>\<^verbatim>\<open>a % b\<close> on integers and \<^verbatim>\<open>xs[i]\<close> on a list, with Python's negative indices.\<close>

definition py_mod :: "int \<Rightarrow> int \<Rightarrow> exn + int" where
  "py_mod a b = (if b = 0 then Inl ZeroDivisionError else Inr (a mod b))"

definition py_index :: "'a list \<Rightarrow> int \<Rightarrow> exn + 'a" where
  "py_index xs i =
     (if 0 \<le> i \<and> i < int (length xs) then Inr (xs ! nat i)
      else if i < 0 \<and> - int (length xs) \<le> i then Inr (xs ! nat (int (length xs) + i))
      else Inl IndexError)"

text \<open>
  The loop of \<^verbatim>\<open>user_session\<close> (lines 59 to 66). \<open>clock k\<close> is the value of the \<open>k\<close>-th call
  of \<^verbatim>\<open>time.time()\<close> in \<^verbatim>\<open>user_session\<close> itself (the call of line 56 is the one numbered 0),
  and \<open>net k\<close> is the HTTP session as the \<open>k\<close>-th request of this user finds it. The pause
  of line 66 only lets time pass. The loop need not end: its result is \<open>None\<close> when the
  clock never reaches \<open>end_time\<close>. Beside the results it returns the URLs requested, in the
  order of the requests.
\<close>

partial_function (option) session_loop ::
  "string \<Rightarrow> (nat \<Rightarrow> real) \<Rightarrow> (nat \<Rightarrow> string \<Rightarrow> outcome) \<Rightarrow> string list \<Rightarrow> real \<Rightarrow>
   nat \<Rightarrow> results \<Rightarrow> string list \<Rightarrow> (exn + results \<times> string list) option" where
  "session_loop base clock net endpoints end_time request_count r requested =
     (if clock (Suc request_count) < end_time then
        (case ebind (py_mod (int request_count) (int (length endpoints))) (py_index endpoints) of
           Inl e \<Rightarrow> Some (Inl e)
         | Inr endpoint \<Rightarrow>
             (case snd (make_request base (net request_count) r endpoint) of
                Inl e \<Rightarrow> Some (Inl e)
              | Inr v \<Rightarrow>
                  session_loop base clock net endpoints end_time (Suc request_count)
                    (fst (make_request base (net request_count) r endpoint))
                    (requested @ [base @ endpoint])))
      else Some (Inr (r, requested)))"

text \<open>\<^verbatim>\<open>user_session\<close> (lines 54 to 66).\<close>

definition user_session ::
  "tester \<Rightarrow> nat \<Rightarrow> (nat \<Rightarrow> real) \<Rightarrow> (nat \<Rightarrow> string \<Rightarrow> outcome) \<Rightarrow> string list \<Rightarrow>
   (exn + results \<times> string list) option" where
  "user_session t user_id clock net endpoints =
     session_loop (base_url t) clock net endpoints (clock 0 + duration t) 0 (results t) []"


section \<open>The report\<close>

text \<open>
  The functions of the standard library that \<^verbatim>\<open>print_results\<close> calls, on floats idealised
  as reals: \<^verbatim>\<open>/\<close>, \<^verbatim>\<open>min\<close>, \<^verbatim>\<open>max\<close>, \<^verbatim>\<open>int\<close> (truncation towards zero),
  \<^verbatim>\<open>statistics.mean\<close>, \<^verbatim>\<open>statistics.median\<close> and \<^verbatim>\<open>statistics.stdev\<close>.
\<close>

definition py_truediv :: "real \<Rightarrow> real \<Rightarrow> exn + real" where
  "py_truediv a b = (if b = 0 then Inl ZeroDivisionError else Inr (a / b))"

definition py_min :: "real list \<Rightarrow> exn + real" where
  "py_min xs =
     (case xs of [] \<Rightarrow> Inl (ValueError ''min() arg is an empty sequence'')
      | x # ys \<Rightarrow> Inr (fold min ys x))"

definition py_max :: "real list \<Rightarrow> exn + real" where
  "py_max xs =
     (case xs of [] \<Rightarrow> Inl (ValueError ''max() arg is an empty sequence'')
      | x # ys \<Rightarrow> Inr (fold max ys x))"

definition py_int :: "real \<Rightarrow> int" where
  "py_int x = (if 0 \<le> x then \<lfloor>x\<rfloor> else \<lceil>x\<rceil>)"

definition statistics_mean :: "real list \<Rightarrow> exn + real" where
  "statistics_mean xs =
     (if xs = [] then Inl (StatisticsError ''mean requires at least one data point'')
      else Inr (sum_list xs / real (length xs)))"

definition statistics_median :: "real list \<Rightarrow> exn + real" where
  "statistics_median xs =
     (let data = sort xs; n = length data
      in if n = 0 then Inl (StatisticsError ''no median for empty data'')
         else if n mod 2 = 1 then Inr (data ! (n div 2))
         else Inr ((data ! (n div 2 - 1) + data ! (n div 2)) / 2))"

definition statistics_stdev :: "real list \<Rightarrow> exn + real" where
  "statistics_stdev xs =
     (if length xs < 2 then Inl (StatisticsError ''stdev requires at least two data points'')
      else Inr (sqrt (sum_list (map (\<lambda>x. (x - sum_list xs / real (length xs))\<^sup>2) xs)
                      / real (length xs - 1))))"

text \<open>
  The request statistics of \<^verbatim>\<open>print_results\<close> (lines 115 to 122), its first computation:
  the success rate in percent and the requests per second.
\<close>

definition request_statistics :: "results \<Rightarrow> real \<Rightarrow> exn + real \<times> real" where
  "request_statistics r total_time =
     ebind (py_truediv (of_int (successful_requests r)) (of_int (total_requests r)))
       (\<lambda>ratio. ebind (py_truediv (of_int (total_requests r)) total_time)
          (\<lambda>per_second. Inr (ratio * 100, per_second)))"

text \<open>
  The response time statistics of \<^verbatim>\<open>print_results\<close> (lines 124 to 143): nothing when there
  is no sample, the standard deviation only with more than one.
\<close>

record rt_statistics =
  rt_min :: real
  rt_max :: real
  rt_mean :: real
  rt_median :: real
  rt_stdev :: "real option"
  p50 :: real
  p95 :: real
  p99 :: real

definition response_time_statistics :: "real list \<Rightarrow> exn + rt_statistics option" where
  "response_time_statistics samples =
     (if samples = [] then Inr None
      else
        ebind (py_min samples) (\<lambda>mn.
        ebind (py_max samples) (\<lambda>mx.
        ebind (statistics_mean samples) (\<lambda>mean.
        ebind (statistics_median samples) (\<lambda>median.
        ebind (if length samples > 1 then ebind (statistics_stdev samples) (\<lambda>sd. Inr (Some sd))
               else Inr None) (\<lambda>stdev.
        let sorted_times = sort samples in
        ebind (py_index sorted_times (int (length sorted_times) div 2)) (\<lambda>v50.
        ebind (py_index sorted_times (py_int (real (length sorted_times) * 0.95))) (\<lambda>v95.
        ebind (py_index sorted_times (py_int (real (length sorted_times) * 0.99))) (\<lambda>v99.
        Inr (Some \<lparr>rt_min = mn, rt_max = mx, rt_mean = mean, rt_median = median,
                    rt_stdev = stdev, p50 = v50, p95 = v95, p99 = v99\<rparr>))))))))))"

text \<open>
  The record that \<^verbatim>\<open>print_results\<close> saves (lines 168 to 182), its last computation, and
  the \<^verbatim>\<open>response_time_stats\<close> in it (lines 174 to 179): minimum, maximum, mean and median,
  each 0 when there is no sample.
\<close>

definition response_time_stats :: "real list \<Rightarrow> exn + real \<times> real \<times> real \<times> real" where
  "response_time_stats samples =
     ebind (if samples \<noteq> [] then py_min samples else Inr 0) (\<lambda>mn.
     ebind (if samples \<noteq> [] then py_max samples else Inr 0) (\<lambda>mx.
     ebind (if samples \<noteq> [] then statistics_mean samples else Inr 0) (\<lambda>mean.
     ebind (if samples \<noteq> [] then statistics_median samples else Inr 0) (\<lambda>median.
     Inr (mn, mx, mean, median)))))"

record saved_results =
  saved_total_requests :: int
  saved_successful_requests :: int
  saved_failed_requests :: int
  saved_server_distribution :: "(pykey \<times> int) list"
  saved_status_codes :: "(int \<times> int) list"
  saved_response_time_stats :: "real \<times> real \<times> real \<times> real"
  saved_duration :: real
  requests_per_second :: real

definition results_to_save :: "results \<Rightarrow> real \<Rightarrow> exn + saved_results" where
  "results_to_save r total_time =
     ebind (response_time_stats (response_times r)) (\<lambda>stats.
     ebind (py_truediv (of_int (total_requests r)) total_time) (\<lambda>per_second.
     Inr \<lparr>saved_total_requests = total_requests r,
          saved_successful_requests = successful_requests r,
          saved_failed_requests = failed_requests r,
          saved_server_distribution = server_distribution r,
          saved_status_codes = status_codes r,
          saved_response_time_stats = stats,
          saved_duration = total_time, requests_per_second = per_second\<rparr>))"


section \<open>Properties of one request\<close>

lemma sum_list_bump: "sum_list (dict_values (bump d k)) = sum_list (dict_values d) + 1"
  by (induction d k rule: bump.induct) (simp_all add: dict_values_def)

lemma server_id_bookkeeping:
  "(case py_contains ''server_id'' d of
      Inl e \<Rightarrow> False
    | Inr False \<Rightarrow> True
    | Inr True \<Rightarrow>
        (case ebind (py_getitem d ''server_id'') py_hash_key of
           Inl e \<Rightarrow> False | Inr k \<Rightarrow> True))
   = server_id_recordable d"
proof (cases d)
  case (JObj kvs)
  show ?thesis
  proof (cases "map_of kvs ''server_id''")
    case None
    with JObj show ?thesis by simp
  next
    case (Some v)
    with JObj show ?thesis by (cases v) (simp_all add: ebind_def)
  qed
qed (simp_all add: ebind_def split: bool.splits)

lemma make_request_snd:
  "snd (make_request url session r endpoint) = Inr (returns_true (session (url @ endpoint)))"
proof (cases "session (url @ endpoint)")
  case (Response t s b)
  show ?thesis
  proof (cases b)
    case (Parsed d)
    show ?thesis
    proof (cases "s = 200")
      case True
      with Response Parsed server_id_bookkeeping [of d] show ?thesis
        by (auto simp: make_request_def try_body_def Let_def
            split: sum.splits bool.splits exn.splits)
    next
      case False
      with Response Parsed show ?thesis
        by (simp add: make_request_def try_body_def Let_def)
    qed
  qed (simp_all add: Response make_request_def try_body_def)
qed (simp_all add: make_request_def try_body_def)

lemma make_request_parsed:
  assumes "parsed_response out"
  shows "response_times (fst (make_request url (\<lambda>u. out) r ep))
          = response_times r @ [case out of Response t s b \<Rightarrow> t]"
    and "status_codes (fst (make_request url (\<lambda>u. out) r ep))
          = bump (status_codes r) (case out of Response t s b \<Rightarrow> s)"
    and "successful_requests (fst (make_request url (\<lambda>u. out) r ep))
          = successful_requests r + (if non_success_status out then 0 else 1)"
  using assms
  by (cases out rule: parsed_response.cases;
      auto simp: make_request_def try_body_def Let_def
           split: sum.splits bool.splits exn.splits)+

lemma make_request_unparsed:
  assumes "\<not> parsed_response out"
  shows "response_times (fst (make_request url (\<lambda>u. out) r ep)) = response_times r"
    and "status_codes (fst (make_request url (\<lambda>u. out) r ep)) = status_codes r"
    and "successful_requests (fst (make_request url (\<lambda>u. out) r ep)) = successful_requests r"
  using assms
  by (cases out rule: parsed_response.cases; simp add: make_request_def try_body_def)+

lemma run_requests_counts:
  "int (length (response_times (run_requests url r calls)))
     = int (length (response_times r)) + count_where parsed_response calls
   \<and> sum_list (dict_values (status_codes (run_requests url r calls)))
     = sum_list (dict_values (status_codes r)) + count_where parsed_response calls
   \<and> successful_requests (run_requests url r calls)
     = successful_requests r + count_where parsed_response calls
        - count_where (\<lambda>out. parsed_response out \<and> non_success_status out) calls"
proof (induction calls arbitrary: r)
  case Nil
  show ?case by (simp add: count_where_def)
next
  case (Cons c calls)
  obtain ep out where c: "c = (ep, out)" by (cases c)
  show ?case
  proof (cases "parsed_response out")
    case True
    then show ?thesis
      using Cons.IH [of "fst (make_request url (\<lambda>u. out) r ep)"] c
      by (simp add: make_request_parsed sum_list_bump count_where_def)
  next
    case False
    then show ?thesis
      using Cons.IH [of "fst (make_request url (\<lambda>u. out) r ep)"] c
      by (simp add: make_request_unparsed count_where_def)
  qed
qed

lemma run_requests_total:
  "total_requests (run_requests base r calls) = total_requests r + count_where parsed_response calls"
proof (induction calls arbitrary: r)
  case Nil
  show ?case by (simp add: count_where_def)
next
  case (Cons c calls)
  obtain ep out where c: "c = (ep, out)" by (cases c)
  have "total_requests (fst (make_request base (\<lambda>u. out) r ep))
        = total_requests r + (if parsed_response out then 1 else 0)"
    by (cases out rule: parsed_response.cases)
       (auto simp: make_request_def try_body_def Let_def split: sum.splits bool.splits exn.splits)
  then show ?case
    using Cons.IH [of "fst (make_request base (\<lambda>u. out) r ep)"] c
    by (simp add: count_where_def)
qed

text \<open>
  C1. The claim: every completed request attempt, a timeout included, adds one to
  \<open>total_requests\<close>, so that the successful and the failed requests sum to it. On a fresh
  tester, a request that times out is counted as failed and leaves \<open>total_requests\<close> at 0:
  only the path of a parsed response (line 32) counts it.
\<close>

theorem timeout_not_in_total:
  "total_requests (fst (make_request ''http://localhost:8080'' (\<lambda>u. TimedOut)
      initial_results ''/api/products'')) = 0
   \<and> successful_requests (fst (make_request ''http://localhost:8080'' (\<lambda>u. TimedOut)
      initial_results ''/api/products''))
     + failed_requests (fst (make_request ''http://localhost:8080'' (\<lambda>u. TimedOut)
      initial_results ''/api/products'')) = 1"
  by (simp add: make_request_def try_body_def initial_results_def)

text \<open>
  C3, as the code has it. A response with status 200 whose body cannot be parsed is
  counted as failed and the text of the parse error is appended to \<open>errors\<close>; it adds no
  latency sample and no status code tally, is not counted as successful, and the call
  returns \<^verbatim>\<open>False\<close>.
\<close>

theorem unparsable_body_is_failure_without_sample:
  assumes "session (url @ endpoint) = Response t 200 (Unparsable msg)"
  shows "failed_requests (fst (make_request url session r endpoint)) = failed_requests r + 1
    \<and> errors (fst (make_request url session r endpoint)) = errors r @ [msg]
    \<and> response_times (fst (make_request url session r endpoint)) = response_times r
    \<and> status_codes (fst (make_request url session r endpoint)) = status_codes r
    \<and> successful_requests (fst (make_request url session r endpoint)) = successful_requests r
    \<and> snd (make_request url session r endpoint) = Inr False"
  using assms by (simp add: make_request_def try_body_def)

theorem unparsable_body_is_failure_without_sample_witness:
  "(\<lambda>u. Response 5 200 (Unparsable ''bad'')) (''http://localhost:8080'' @ ''/'')
     = Response 5 200 (Unparsable ''bad'')
   \<and> failed_requests (fst (make_request ''http://localhost:8080''
        (\<lambda>u. Response 5 200 (Unparsable ''bad'')) initial_results ''/'')) = 1
   \<and> errors (fst (make_request ''http://localhost:8080''
        (\<lambda>u. Response 5 200 (Unparsable ''bad'')) initial_results ''/'')) = [''bad'']
   \<and> response_times (fst (make_request ''http://localhost:8080''
        (\<lambda>u. Response 5 200 (Unparsable ''bad'')) initial_results ''/'')) = []"
  using unparsable_body_is_failure_without_sample
    [of "\<lambda>u. Response 5 200 (Unparsable ''bad'')" "''http://localhost:8080''" "''/''"
        5 "''bad''" initial_results]
  by (simp add: initial_results_def)

text \<open>
  C3, as the claim states it, fails: a response with status 200 and an unparsable body
  leaves \<open>response_times\<close> and \<open>status_codes\<close> empty, where a response with status 500
  and a parsed body adds a sample and a tally.
\<close>

theorem unparsable_body_counted_like_non_success_counterexample:
  "response_times (fst (make_request ''http://localhost:8080''
      (\<lambda>u. Response 5 200 (Unparsable ''bad'')) initial_results ''/'')) = []
   \<and> status_codes (fst (make_request ''http://localhost:8080''
      (\<lambda>u. Response 5 200 (Unparsable ''bad'')) initial_results ''/'')) = []
   \<and> response_times (fst (make_request ''http://localhost:8080''
      (\<lambda>u. Response 5 500 (Parsed (JObj []))) initial_results ''/'')) = [5]
   \<and> status_codes (fst (make_request ''http://localhost:8080''
      (\<lambda>u. Response 5 500 (Parsed (JObj []))) initial_results ''/'')) = [(500, 1)]"
  by (simp add: make_request_def try_body_def initial_results_def)

text \<open>
  C4, as the code has it. After any sequence of completed requests on a fresh tester, the
  number of latency samples and the sum of the status code tallies both equal the number
  of responses whose body was parsed, which is the number of successful requests plus
  the number of parsed responses with a status other than 200. Timeouts, transport
  errors and responses whose body could not be read or parsed add to neither.
\<close>

theorem samples_and_tallies_count_parsed_responses:
  "int (length (response_times (run_requests url initial_results calls)))
     = count_where parsed_response calls
   \<and> sum_list (dict_values (status_codes (run_requests url initial_results calls)))
     = count_where parsed_response calls
   \<and> count_where parsed_response calls
     = successful_requests (run_requests url initial_results calls)
        + count_where (\<lambda>out. parsed_response out \<and> non_success_status out) calls"
  using run_requests_counts [of url initial_results calls]
  by (simp add: initial_results_def dict_values_def)

text \<open>
  C4, as the claim states it, fails: a response with status 500 whose body is not JSON
  received an HTTP status and is a failure with a status other than 200, yet it adds no
  latency sample and no tally, so both counts are 0 where the claim's right-hand side
  is 1.
\<close>

theorem every_status_gives_sample_counterexample:
  "received_status (Response 5 500 (Unparsable ''bad''))
   \<and> non_success_status (Response 5 500 (Unparsable ''bad''))
   \<and> length (response_times (run_requests ''http://localhost:8080'' initial_results
        [(''/'', Response 5 500 (Unparsable ''bad''))])) = 0
   \<and> sum_list (dict_values (status_codes (run_requests ''http://localhost:8080''
        initial_results [(''/'', Response 5 500 (Unparsable ''bad''))]))) = 0
   \<and> successful_requests (run_requests ''http://localhost:8080'' initial_results
        [(''/'', Response 5 500 (Unparsable ''bad''))])
      + count_where non_success_status [(''/'', Response 5 500 (Unparsable ''bad''))] = 1"
  by (simp add: make_request_def try_body_def initial_results_def dict_values_def
      count_where_def)

text \<open>
  C8. \<^verbatim>\<open>make_request\<close> returns normally whatever the GET yields: a response, a timeout
  or any other error, also an exception raised by the bookkeeping of the server id. Every
  failure is captured in the shared results: when the call returns \<^verbatim>\<open>False\<close> it has added
  one to \<open>failed_requests\<close> and one entry to \<open>errors\<close>, which is \<^verbatim>\<open>'Timeout'\<close> for a timeout
  and the text of the exception otherwise; when it returns \<^verbatim>\<open>True\<close> it has added no entry
  to \<open>errors\<close> and counted the request as failed exactly when its status is not 200.
\<close>

theorem make_request_never_raises:
  "\<exists>b r'. make_request base session r endpoint = (r', Inr b)
     \<and> (if b then failed_requests r' = failed_requests r
                      + (if non_success_status (session (base @ endpoint)) then 1 else 0)
                 \<and> errors r' = errors r
        else failed_requests r' = failed_requests r + 1
             \<and> (\<exists>msg. errors r' = errors r @ [msg]))
     \<and> (case session (base @ endpoint) of
          TimedOut \<Rightarrow> \<not> b \<and> errors r' = errors r @ [''Timeout'']
        | Failed msg \<Rightarrow> \<not> b \<and> errors r' = errors r @ [msg]
        | Response t s ReadTimeout \<Rightarrow> \<not> b \<and> errors r' = errors r @ [''Timeout'']
        | Response t s (Unparsable msg) \<Rightarrow> \<not> b \<and> errors r' = errors r @ [msg]
        | Response t s (Parsed d) \<Rightarrow> b = returns_true (session (base @ endpoint)))"
proof (cases "session (base @ endpoint)")
  case TimedOut
  then show ?thesis by (auto simp: make_request_def try_body_def)
next
  case (Failed msg)
  then show ?thesis by (auto simp: make_request_def try_body_def)
next
  case (Response t s bd)
  show ?thesis
  proof (cases bd)
    case (Parsed d)
    with Response show ?thesis
      using server_id_bookkeeping [of d]
      by (auto simp: make_request_def try_body_def Let_def
          split: sum.splits bool.splits exn.splits)
  qed (auto simp: Response make_request_def try_body_def)
qed

text \<open>
  C10, as the code has it. \<^verbatim>\<open>make_request\<close> returns \<^verbatim>\<open>True\<close> exactly when a response was
  received, its body was parsed and, for status 200, the bookkeeping of the server id
  raised nothing; in every other case it returns \<^verbatim>\<open>False\<close>. It returns nothing else.
\<close>

theorem make_request_return_value:
  "snd (make_request url session r endpoint) = Inr (returns_true (session (url @ endpoint)))"
  by (rule make_request_snd)

text \<open>
  C10, as the claim states it, fails: a response with status 200 was received, its body
  could not be parsed, and the call returns \<^verbatim>\<open>False\<close>.
\<close>

theorem true_iff_response_received_counterexample:
  "received_status (Response 5 200 (Unparsable ''bad''))
   \<and> snd (make_request ''http://localhost:8080''
        (\<lambda>u. Response 5 200 (Unparsable ''bad'')) initial_results ''/'') = Inr False"
  by (simp add: make_request_def try_body_def)


section \<open>Properties of a virtual user\<close>

lemma pick_endpoint:
  assumes "endpoints \<noteq> []"
  shows "ebind (py_mod (int k) (int (length endpoints))) (py_index endpoints)
          = Inr (endpoints ! (k mod length endpoints))"
proof -
  have "int k mod int (length endpoints) = int (k mod length endpoints)"
    by (simp add: zmod_int)
  moreover have "k mod length endpoints < length endpoints"
    using assms by simp
  ultimately show ?thesis
    using assms by (simp add: ebind_def py_mod_def py_index_def)
qed

lemma session_loop_fold:
  assumes "endpoints \<noteq> []"
    and "\<forall>j. k \<le> j \<and> j < n \<longrightarrow> clock (Suc j) < e"
    and "\<not> clock (Suc n) < e"
    and "k \<le> n"
  shows "session_loop base clock net endpoints e k r tr
          = Some (Inr (foldl (\<lambda>r i. fst (make_request base (net i) r
                                 (endpoints ! (i mod length endpoints)))) r [k ..< n],
                       tr @ map (\<lambda>i. base @ endpoints ! (i mod length endpoints)) [k ..< n]))"
  using assms(2,4)
proof (induction "n - k" arbitrary: k r tr)
  case 0
  then have "k = n" by simp
  with assms(3) show ?case by (subst session_loop.simps) simp
next
  case (Suc d)
  then have lt: "k < n" by simp
  with Suc.prems have c: "clock (Suc k) < e" by simp
  let ?ep = "endpoints ! (k mod length endpoints)"
  let ?r = "fst (make_request base (net k) r ?ep)"
  let ?step = "\<lambda>r i. fst (make_request base (net i) r (endpoints ! (i mod length endpoints)))"
  have rest: "session_loop base clock net endpoints e (Suc k) ?r (tr @ [base @ ?ep])
          = Some (Inr (foldl ?step ?r [Suc k ..< n], (tr @ [base @ ?ep])
              @ map (\<lambda>i. base @ endpoints ! (i mod length endpoints)) [Suc k ..< n]))"
  proof (rule Suc.hyps(1))
    show "d = n - Suc k" using Suc.hyps(2) by simp
    show "\<forall>j. Suc k \<le> j \<and> j < n \<longrightarrow> clock (Suc j) < e" using Suc.prems(1) by simp
    show "Suc k \<le> n" using lt by simp
  qed
  have "session_loop base clock net endpoints e k r tr
        = session_loop base clock net endpoints e (Suc k) ?r (tr @ [base @ ?ep])"
    by (subst session_loop.simps) (simp add: c pick_endpoint [OF assms(1)] make_request_snd)
  with rest lt show ?case by (simp add: upt_conv_Cons)
qed

text \<open>
  C6. With a non-empty endpoint list, a virtual user whose clock stays below the deadline
  for the first \<open>n\<close> checks and reaches it at the next one returns after exactly \<open>n\<close>
  requests. Its \<open>i\<close>-th request (from 0) is the call of \<^verbatim>\<open>make_request\<close> with
  \<^verbatim>\<open>endpoints[i mod len(endpoints)]\<close>: the results it leaves are those of these calls made
  in this order, and the URLs requested are \<^verbatim>\<open>base_url + endpoints[i mod len(endpoints)]\<close>.
\<close>

theorem user_session_round_robin:
  assumes "endpoints \<noteq> []"
    and "\<forall>j<n. clock (Suc j) < clock 0 + duration t"
    and "\<not> clock (Suc n) < clock 0 + duration t"
  shows "user_session t user_id clock net endpoints
          = Some (Inr (foldl (\<lambda>r i. fst (make_request (base_url t) (net i) r
                                 (endpoints ! (i mod length endpoints)))) (results t) [0 ..< n],
                       map (\<lambda>i. base_url t @ endpoints ! (i mod length endpoints)) [0 ..< n]))"
  using session_loop_fold
    [of endpoints 0 n clock "clock 0 + duration t" "base_url t" net "results t" "[]"] assms
  by (simp add: user_session_def)

theorem user_session_round_robin_witness:
  "[''/a'', ''/b''] \<noteq> []
   \<and> real 1 < real 0 + duration (LoadTester_init ''http://h'' 2 (7 / 2))
   \<and> real 2 < real 0 + duration (LoadTester_init ''http://h'' 2 (7 / 2))
   \<and> real 3 < real 0 + duration (LoadTester_init ''http://h'' 2 (7 / 2))
   \<and> \<not> real 4 < real 0 + duration (LoadTester_init ''http://h'' 2 (7 / 2))
   \<and> user_session (LoadTester_init ''http://h'' 2 (7 / 2)) 0 real
        (\<lambda>k u. if u = ''http://h/a'' then Response 5 200 (Parsed (JObj [])) else TimedOut)
        [''/a'', ''/b'']
      = Some (Inr (\<lparr>total_requests = 2, successful_requests = 2, failed_requests = 1,
                     response_times = [5, 5], server_distribution = [],
                     status_codes = [(200, 2)], errors = [''Timeout'']\<rparr>,
                   [''http://h/a'', ''http://h/b'', ''http://h/a'']))"
proof -
  have a: "[''/a'', ''/b''] \<noteq> []"
    by simp
  have b: "\<forall>j<3. real (Suc j) < real 0 + duration (LoadTester_init ''http://h'' 2 (7 / 2))"
    by (simp add: LoadTester_init_def)
  have c: "\<not> real (Suc 3) < real 0 + duration (LoadTester_init ''http://h'' 2 (7 / 2))"
    by (simp add: LoadTester_init_def)
  show ?thesis
    using user_session_round_robin [OF a b c, of 0
        "\<lambda>k u. if u = ''http://h/a'' then Response 5 200 (Parsed (JObj [])) else TimedOut"]
    by (simp add: LoadTester_init_def upt_conv_Cons make_request_def try_body_def
        initial_results_def)
qed

text \<open>
  C7, as the code has it. No configuration is rejected: the constructor stores every
  user count and every duration as given, with fresh results, and \<^verbatim>\<open>run_test\<close> creates one
  virtual user for each \<open>i\<close> of \<^verbatim>\<open>range(num_users)\<close>, none when the count is not positive.
\<close>

theorem configuration_is_not_validated:
  "base_url (LoadTester_init url n d) = url
   \<and> num_users (LoadTester_init url n d) = n
   \<and> duration (LoadTester_init url n d) = d
   \<and> results (LoadTester_init url n d) = initial_results
   \<and> run_test_tasks (LoadTester_init url n d) = [0 ..< nat n]"
  by (simp add: LoadTester_init_def run_test_tasks_def)

text \<open>
  C7, as the claim states it, fails: a tester with duration -1 is constructed like any
  other, and \<^verbatim>\<open>run_test\<close> creates its two virtual users.
\<close>

theorem non_positive_duration_rejected_counterexample:
  "num_users (LoadTester_init ''http://localhost:8080'' 2 (- 1)) = 2
   \<and> duration (LoadTester_init ''http://localhost:8080'' 2 (- 1)) = - 1
   \<and> run_test_tasks (LoadTester_init ''http://localhost:8080'' 2 (- 1)) = [0, 1]"
  by (simp add: LoadTester_init_def run_test_tasks_def upt_conv_Cons)


section \<open>Properties of the report\<close>

lemma py_min_defined: "xs \<noteq> [] \<Longrightarrow> \<exists>v. py_min xs = Inr v"
  by (cases xs) (simp_all add: py_min_def)

lemma py_max_defined: "xs \<noteq> [] \<Longrightarrow> \<exists>v. py_max xs = Inr v"
  by (cases xs) (simp_all add: py_max_def)

lemma statistics_mean_defined: "xs \<noteq> [] \<Longrightarrow> \<exists>v. statistics_mean xs = Inr v"
  by (simp add: statistics_mean_def)

lemma sort_not_Nil: "xs \<noteq> [] \<Longrightarrow> sort xs \<noteq> []"
  by (metis length_sort length_0_conv)

lemma statistics_median_defined:
  assumes "xs \<noteq> []"
  shows "\<exists>v. statistics_median xs = Inr v"
proof (cases "length xs mod 2 = 1")
  case True
  with assms have "statistics_median xs = Inr (sort xs ! (length xs div 2))"
    by (simp add: statistics_median_def Let_def sort_not_Nil)
  then show ?thesis by blast
next
  case False
  with assms have "statistics_median xs
      = Inr ((sort xs ! (length xs div 2 - 1) + sort xs ! (length xs div 2)) / 2)"
    by (simp add: statistics_median_def Let_def sort_not_Nil)
  then show ?thesis by blast
qed

lemma guarded_stdev_defined:
  "\<exists>v. (if length xs > 1 then ebind (statistics_stdev xs) (\<lambda>sd. Inr (Some sd)) else Inr None)
        = Inr v"
  by (simp add: statistics_stdev_def ebind_def)

lemma percent_index_in_range:
  assumes "0 < n" and "0 \<le> p" and "p < 1"
  shows "nat \<lfloor>real n * p\<rfloor> < n"
proof -
  have "real n * p < real n"
    using assms by simp
  then have "\<lfloor>real n * p\<rfloor> < int n"
    by (simp add: floor_less_iff)
  then show ?thesis
    using assms by linarith
qed

lemma py_index_percent:
  assumes "xs \<noteq> []" and "0 \<le> p" and "p < 1"
  shows "py_index xs (py_int (real (length xs) * p)) = Inr (xs ! nat \<lfloor>real (length xs) * p\<rfloor>)"
proof -
  have n: "0 < length xs"
    using assms by simp
  have "nat \<lfloor>real (length xs) * p\<rfloor> < length xs"
    using percent_index_in_range [OF n assms(2,3)] .
  moreover have "0 \<le> \<lfloor>real (length xs) * p\<rfloor>"
    using assms by simp
  ultimately show ?thesis
    using assms by (simp add: py_index_def py_int_def) linarith
qed

lemma py_index_half:
  assumes "xs \<noteq> []"
  shows "py_index xs (int (length xs) div 2) = Inr (xs ! (length xs div 2))"
proof -
  have "int (length xs) div 2 = int (length xs div 2)"
    by simp
  moreover have "length xs div 2 < length xs"
    using assms by simp
  ultimately show ?thesis
    by (simp add: py_index_def)
qed

text \<open>
  C2. The claim: with \<open>total_requests = 0\<close> the success rate and the requests per second
  are reported as a defined value. On the results of a fresh tester the request
  statistics raise \<^verbatim>\<open>ZeroDivisionError\<close>: line 118 divides by \<open>total_requests\<close>.
\<close>

theorem success_rate_divides_by_zero:
  "request_statistics (results (LoadTester_init ''http://localhost:8080'' 1000 60)) 60
     = Inl ZeroDivisionError"
  by (simp add: request_statistics_def LoadTester_init_def initial_results_def
      py_truediv_def ebind_def)

text \<open>
  C5. For every non-empty list of samples the response time statistics are computed
  without an error, and P50, P95 and P99 are the elements of the sorted samples at the
  indices \<open>n div 2\<close>, \<open>\<lfloor>n * 0.95\<rfloor>\<close> and \<open>\<lfloor>n * 0.99\<rfloor>\<close>, where \<open>n\<close> is the number of samples.
  For the samples 10, 20, 30, 40, 50, in any order, P50 is 30.
\<close>

theorem percentiles_by_truncated_index:
  assumes "samples \<noteq> []"
  shows "\<exists>rep. response_time_statistics samples = Inr (Some rep)
     \<and> p50 rep = sort samples ! (length samples div 2)
     \<and> p95 rep = sort samples ! nat \<lfloor>real (length samples) * 0.95\<rfloor>
     \<and> p99 rep = sort samples ! nat \<lfloor>real (length samples) * 0.99\<rfloor>"
proof -
  obtain mn where mn: "py_min samples = Inr mn"
    using py_min_defined [OF assms] by blast
  obtain mx where mx: "py_max samples = Inr mx"
    using py_max_defined [OF assms] by blast
  obtain me where me: "statistics_mean samples = Inr me"
    using statistics_mean_defined [OF assms] by blast
  obtain md where md: "statistics_median samples = Inr md"
    using statistics_median_defined [OF assms] by blast
  obtain sd where sd:
    "(if length samples > 1 then ebind (statistics_stdev samples) (\<lambda>sd. Inr (Some sd))
      else Inr None) = Inr sd"
    using guarded_stdev_defined [of samples] by blast
  have s: "sort samples \<noteq> []"
    using assms by (rule sort_not_Nil)
  have i50: "py_index (sort samples) (int (length (sort samples)) div 2)
      = Inr (sort samples ! (length samples div 2))"
    using py_index_half [OF s] by simp
  have i95: "py_index (sort samples) (py_int (real (length (sort samples)) * 0.95))
      = Inr (sort samples ! nat \<lfloor>real (length samples) * 0.95\<rfloor>)"
    using py_index_percent [OF s, of "0.95"] by simp
  have i99: "py_index (sort samples) (py_int (real (length (sort samples)) * 0.99))
      = Inr (sort samples ! nat \<lfloor>real (length samples) * 0.99\<rfloor>)"
    using py_index_percent [OF s, of "0.99"] by simp
  show ?thesis
    unfolding response_time_statistics_def Let_def mn mx me md sd i50 i95 i99
    using assms by (simp add: ebind_def)
qed

theorem percentiles_by_truncated_index_witness:
  "[30, 10, 50, 20, 40] \<noteq> ([]::real list)
   \<and> (\<exists>rep. response_time_statistics [30, 10, 50, 20, 40] = Inr (Some rep)
         \<and> p50 rep = 30 \<and> p95 rep = 50 \<and> p99 rep = 50)"
  using percentiles_by_truncated_index [of "[30, 10, 50, 20, 40]"] by simp

text \<open>
  The statistics of lines 124 to 143 and 174 to 179, taken by themselves, are guarded:
  with no sample the block of the console report is skipped and the saved minimum,
  maximum, mean and median are 0; with exactly one sample \<open>x\<close> the standard deviation is
  skipped and every other statistic, the percentiles included, is \<open>x\<close>.
\<close>

lemma guarded_statistics_no_or_one_sample:
  "response_time_statistics [] = Inr None
   \<and> response_time_stats [] = Inr (0, 0, 0, 0)
   \<and> response_time_statistics [x]
       = Inr (Some \<lparr>rt_min = x, rt_max = x, rt_mean = x, rt_median = x, rt_stdev = None,
                     p50 = x, p95 = x, p99 = x\<rparr>)
   \<and> response_time_stats [x] = Inr (x, x, x, x)"
  by (simp add: response_time_statistics_def response_time_stats_def ebind_def py_min_def
      py_max_def statistics_mean_def statistics_median_def py_index_def py_int_def Let_def)

text \<open>
  C9. The claim: with no sample the percentile, mean and standard deviation outputs of
  the report are defined and nothing raises. After any sequence of completed requests
  on a fresh tester that left no sample, \<open>total_requests\<close> is 0 as well (lines 32 and 33
  go together), so the request statistics, which \<^verbatim>\<open>print_results\<close> computes first, raise
  \<^verbatim>\<open>ZeroDivisionError\<close> at line 118, before the guarded statistics are reached.
\<close>

theorem no_sample_report_divides_by_zero:
  assumes "response_times (run_requests base initial_results calls) = []"
  shows "request_statistics (run_requests base initial_results calls) total_time
           = Inl ZeroDivisionError"
proof -
  have "count_where parsed_response calls = 0"
    using run_requests_counts [of base initial_results calls] assms
    by (simp add: initial_results_def)
  then have "total_requests (run_requests base initial_results calls) = 0"
    using run_requests_total [of base initial_results calls]
    by (simp add: initial_results_def)
  then show ?thesis
    by (simp add: request_statistics_def py_truediv_def ebind_def)
qed

theorem no_sample_report_divides_by_zero_witness:
  "response_times (run_requests ''http://localhost:8080'' initial_results
      [(''/'', TimedOut), (''/api/users'', Failed ''Connection refused'')]) = []
   \<and> request_statistics (run_requests ''http://localhost:8080'' initial_results
      [(''/'', TimedOut), (''/api/users'', Failed ''Connection refused'')]) 60
       = Inl ZeroDivisionError"
proof -
  have h: "response_times (run_requests ''http://localhost:8080'' initial_results
      [(''/'', TimedOut), (''/api/users'', Failed ''Connection refused'')]) = []"
    by (simp add: make_request_def try_body_def initial_results_def)
  show ?thesis using no_sample_report_divides_by_zero [OF h, of 60] h by simp
qed

end
